theory Spec2Isabelle
  imports Complex_Main
begin

section \<open>The tsunami risk dashboard (app.py)\<close>

text \<open>
  The dashboard is one script that is run again from the top on every interaction:
  it loads a classifier, reads twelve sidebar controls, packs their values into a
  one-row table, and, when the button is pressed, asks the classifier for a label and
  a probability and renders them.

  Conventions of the embedding.
  \<^item> A Python \<open>float\<close> is a \<open>real\<close> and a Python \<open>int\<close> is an \<open>int\<close>. Every
    finite float is a rational number, and the comparisons of the script
    (\<open>magnitude >= 7\<close>) are exact on it; the one arithmetic operation of the script,
    \<open>* 100\<close>, is taken as the exact product (the rounding of the product to the next
    float is not part of the model).
  \<^item> A one-row \<open>DataFrame\<close> is the list of its (column, value) pairs in column
    order, which for a row given as a \<open>dict\<close> is the order in which the keys are
    written.
  \<^item> An exception is a value of the type \<open>error\<close>; a computation that may raise
    returns \<open>error + 'a\<close>, with \<open>Inl\<close> the exception.
  \<^item> The pictographs and the dash of the message strings are left out of the
    string literals, which hold the remaining text of each message.
\<close>

subsection \<open>The sidebar controls (lines 59 to 70)\<close>

record 'a control =
  label :: string
  min_value :: 'a
  max_value :: 'a
  default_value :: 'a

definition magnitude_control :: "real control" where
  "magnitude_control =
     \<lparr>label = ''Magnitude (Mw)'', min_value = 4.0, max_value = 10.0, default_value = 6.5\<rparr>"

definition depth_control :: "real control" where
  "depth_control =
     \<lparr>label = ''Depth (km)'', min_value = 0.0, max_value = 700.0, default_value = 50.0\<rparr>"

definition cdi_control :: "int control" where
  "cdi_control =
     \<lparr>label = ''CDI (Community Intensity)'', min_value = 0, max_value = 10, default_value = 5\<rparr>"

definition mmi_control :: "int control" where
  "mmi_control =
     \<lparr>label = ''MMI (Modified Mercalli)'', min_value = 0, max_value = 10, default_value = 5\<rparr>"

definition sig_control :: "int control" where
  "sig_control =
     \<lparr>label = ''Significance (sig)'', min_value = 0, max_value = 1000, default_value = 600\<rparr>"

definition nst_control :: "int control" where
  "nst_control =
     \<lparr>label = ''Number of Stations (nst)'', min_value = 0, max_value = 1000,
      default_value = 100\<rparr>"

definition dmin_control :: "real control" where
  "dmin_control =
     \<lparr>label = ''Dmin (Distance to nearest station)'', min_value = 0.0, max_value = 10.0,
      default_value = 1.0\<rparr>"

definition gap_control :: "real control" where
  "gap_control =
     \<lparr>label = ''Gap (degrees)'', min_value = 0.0, max_value = 180.0, default_value = 40.0\<rparr>"

definition latitude_control :: "real control" where
  "latitude_control =
     \<lparr>label = ''Latitude'', min_value = - 90.0, max_value = 90.0, default_value = 0.0\<rparr>"

definition longitude_control :: "real control" where
  "longitude_control =
     \<lparr>label = ''Longitude'', min_value = - 180.0, max_value = 180.0, default_value = 0.0\<rparr>"

definition year_control :: "int control" where
  "year_control =
     \<lparr>label = ''Year'', min_value = 1900, max_value = 2025, default_value = 2024\<rparr>"

text \<open>The default of the month slider is \<open>datetime.now().month\<close>, a parameter here.\<close>

definition month_control :: "int \<Rightarrow> int control" where
  "month_control now_month =
     \<lparr>label = ''Month'', min_value = 1, max_value = 12, default_value = now_month\<rparr>"

text \<open>
  The current values of the twelve controls, under the names of the script's variables.
  The float sliders and number inputs return floats, the integer ones integers.
\<close>

record form =
  magnitude :: real
  depth :: real
  cdi :: int
  mmi :: int
  sig :: int
  nst :: int
  dmin :: real
  gap :: real
  latitude :: real
  longitude :: real
  year :: int
  month :: int

definition in_range :: "('a::linorder) control \<Rightarrow> 'a \<Rightarrow> bool" where
  "in_range c v = (min_value c \<le> v \<and> v \<le> max_value c)"

text \<open>
  A form state whose every control holds a value of its declared range, as the sliders
  and number inputs guarantee; \<open>now_month\<close> is the month of the run.
\<close>

definition form_in_range :: "int \<Rightarrow> form \<Rightarrow> bool" where
  "form_in_range now_month f =
     (in_range magnitude_control (magnitude f) \<and>
      in_range depth_control (depth f) \<and>
      in_range cdi_control (cdi f) \<and>
      in_range mmi_control (mmi f) \<and>
      in_range sig_control (sig f) \<and>
      in_range nst_control (nst f) \<and>
      in_range dmin_control (dmin f) \<and>
      in_range gap_control (gap f) \<and>
      in_range latitude_control (latitude f) \<and>
      in_range longitude_control (longitude f) \<and>
      in_range year_control (year f) \<and>
      in_range (month_control now_month) (month f))"

text \<open>The form as it is before the operator touches a control.\<close>

definition default_form :: "int \<Rightarrow> form" where
  "default_form now_month =
     \<lparr>magnitude = default_value magnitude_control,
      depth = default_value depth_control,
      cdi = default_value cdi_control,
      mmi = default_value mmi_control,
      sig = default_value sig_control,
      nst = default_value nst_control,
      dmin = default_value dmin_control,
      gap = default_value gap_control,
      latitude = default_value latitude_control,
      longitude = default_value longitude_control,
      year = default_value year_control,
      month = default_value (month_control now_month)\<rparr>"

subsection \<open>The input record (lines 73 to 77)\<close>

datatype cell = IntCell int | FloatCell real

type_synonym dataframe = "(string \<times> cell) list"

definition input_data :: "form \<Rightarrow> dataframe" where
  "input_data f =
     [(''magnitude'', FloatCell (magnitude f)), (''cdi'', IntCell (cdi f)),
      (''mmi'', IntCell (mmi f)), (''sig'', IntCell (sig f)),
      (''nst'', IntCell (nst f)), (''dmin'', FloatCell (dmin f)),
      (''gap'', FloatCell (gap f)), (''depth'', FloatCell (depth f)),
      (''latitude'', FloatCell (latitude f)), (''longitude'', FloatCell (longitude f)),
      (''Year'', IntCell (year f)), (''Month'', IntCell (month f))]"

definition columns :: "dataframe \<Rightarrow> string list" where
  "columns df = map fst df"

text \<open>\<open>df[c]\<close> for a one-row table: the value of the column, \<open>None\<close> when absent.\<close>

definition column_value :: "dataframe \<Rightarrow> string \<Rightarrow> cell option" where
  "column_value df c = map_of df c"

subsection \<open>The classifier and the predictor (lines 84 and 85)\<close>

datatype error = AttributeError | IndexError | ValueError | Raised string

text \<open>
  The classifier is the object that \<open>joblib.load\<close> returns; the script uses two of its
  methods and one attribute. Each may raise: the attribute raises \<open>AttributeError\<close> on
  a classifier that has no feature importances. The class labels are integers.
\<close>

record model =
  predict :: "dataframe \<Rightarrow> error + int list"
  predict_proba :: "dataframe \<Rightarrow> error + real list list"
  feature_importances :: "error + real list"

definition and_then :: "error + 'a \<Rightarrow> ('a \<Rightarrow> error + 'b) \<Rightarrow> error + 'b" where
  "and_then r k = (case r of Inl e \<Rightarrow> Inl e | Inr x \<Rightarrow> k x)"

text \<open>\<open>xs[i]\<close> for \<open>i \<ge> 0\<close>: out of range it raises \<open>IndexError\<close>.\<close>

definition item :: "'a list \<Rightarrow> nat \<Rightarrow> error + 'a" where
  "item xs i = (if i < length xs then Inr (xs ! i) else Inl IndexError)"

definition run_prediction :: "model \<Rightarrow> dataframe \<Rightarrow> error + int \<times> real" where
  "run_prediction m df =
     and_then (predict m df) (\<lambda>labels.
     and_then (item labels 0) (\<lambda>prediction.
     and_then (predict_proba m df) (\<lambda>rows.
     and_then (item rows 0) (\<lambda>row.
     and_then (item row 1) (\<lambda>p.
     Inr (prediction, p * 100))))))"

subsection \<open>The format \<open>.2f\<close> (line 98)\<close>

text \<open>
  Python prints the decimal numeral with two fraction digits that is nearest to the
  exact value of the float, a tie going to the even neighbour, with the sign of the
  value in front.
\<close>

definition round_half_even :: "real \<Rightarrow> int" where
  "round_half_even x =
     (let n = \<lfloor>x\<rfloor>; d = x - of_int n
      in if d < 1 / 2 then n else if 1 / 2 < d then n + 1
         else if even n then n else n + 1)"

definition digit_char :: "nat \<Rightarrow> char" where
  "digit_char n = ''0123456789'' ! n"

function show_nat :: "nat \<Rightarrow> string" where
  "show_nat n =
     (if n < 10 then [digit_char n] else show_nat (n div 10) @ [digit_char (n mod 10)])"
  by pat_completeness auto
termination
  by (relation "measure id") auto

definition format_2f :: "real \<Rightarrow> string" where
  "format_2f x =
     (let n = nat (round_half_even (\<bar>x\<bar> * 100))
      in (if x < 0 then ''-'' else []) @ show_nat (n div 100) @ ''.'' @
         [digit_char (n mod 100 div 10), digit_char (n mod 10)])"

subsection \<open>The presenter (lines 87 to 189)\<close>

record gauge =
  gauge_value :: real
  axis_range :: "int \<times> int"
  steps :: "((int \<times> int) \<times> string) list"

record map_df =
  Latitude :: real
  Longitude :: real
  Magnitude :: real
  Depth_km :: real
  Risk_Level :: string

datatype element =
    Markdown string
  | Warning string
  | Success string
  | Metric string string
  | Info string
  | Subheader string
  | Dataframe dataframe
  | Gauge_Chart gauge
  | Scatter_Map map_df "string option"
  | Bar_Chart "(string \<times> real) list"

definition high_risk_branch :: "element list" where
  "high_risk_branch =
     [Markdown ''### **High Tsunami Probability Detected**'',
      Warning (''**Immediate caution advised!**'' @ [CHR 0x0A] @
        ''The model detects a significant chance of tsunami occurrence.'')]"

definition safe_branch :: "element list" where
  "safe_branch =
     [Markdown ''### **No Major Tsunami Risk**'',
      Success ''Safe conditions predicted no significant tsunami risk detected.'']"

definition verdict :: "int \<Rightarrow> element list" where
  "verdict prediction = (if prediction = 1 then high_risk_branch else safe_branch)"

definition probability_metric :: "real \<Rightarrow> element" where
  "probability_metric prob = Metric ''Tsunami Risk Probability'' (format_2f prob @ '' %'')"

text \<open>The first column: the verdict and the metric (lines 91 to 98).\<close>

definition col1 :: "int \<Rightarrow> real \<Rightarrow> element list" where
  "col1 prediction prob = verdict prediction @ [probability_metric prob]"

definition fig_gauge :: "real \<Rightarrow> gauge" where
  "fig_gauge prob =
     \<lparr>gauge_value = prob,
      axis_range = (0, 100),
      steps = [((0, 40), ''lightgreen''), ((40, 70), ''gold''), ((70, 100), ''tomato'')]\<rparr>"

definition risk_level :: "real \<Rightarrow> string" where
  "risk_level mag =
     (if mag \<ge> 7 then ''High'' else if mag \<ge> 5 then ''Moderate'' else ''Low'')"

definition make_map_df :: "form \<Rightarrow> map_df" where
  "make_map_df f =
     \<lparr>Latitude = latitude f, Longitude = longitude f, Magnitude = magnitude f,
      Depth_km = depth f, Risk_Level = risk_level (magnitude f)\<rparr>"

definition color_discrete_map :: "(string \<times> string) list" where
  "color_discrete_map = [(''Low'', ''green''), (''Moderate'', ''orange''), (''High'', ''red'')]"

definition fig_map :: "form \<Rightarrow> element" where
  "fig_map f =
     (let d = make_map_df f in Scatter_Map d (map_of color_discrete_map (Risk_Level d)))"

text \<open>
  The body of the \<open>try\<close>: reading the attribute may raise, and a table cannot be built
  from two columns of different lengths (\<open>ValueError\<close>). Rows of equal importance keep
  their column order here.
\<close>

definition fig_imp :: "model \<Rightarrow> dataframe \<Rightarrow> error + element" where
  "fig_imp m df =
     and_then (feature_importances m) (\<lambda>importances.
       if length importances = length (columns df)
       then Inr (Bar_Chart (sort_key snd (zip (columns df) importances)))
       else Inl ValueError)"

definition fallback_notice :: element where
  "fallback_notice = Info ''Feature importance is not available for this model type.''"

text \<open>\<open>try: ... except Exception:\<close> around the chart.\<close>

definition feature_importance :: "model \<Rightarrow> dataframe \<Rightarrow> element list" where
  "feature_importance m df =
     (case fig_imp m df of Inr chart \<Rightarrow> [chart] | Inl e \<Rightarrow> [fallback_notice])"

text \<open>What is rendered once the classifier has answered (lines 87 to 189).\<close>

definition present :: "model \<Rightarrow> form \<Rightarrow> string \<Rightarrow> int \<Rightarrow> real \<Rightarrow> element list" where
  "present m f now prediction prob =
     [Markdown ''---''] @
     col1 prediction prob @
     [Gauge_Chart (fig_gauge prob)] @
     [Info (''**Last Updated:** '' @ now)] @
     [Markdown ''---'', Subheader ''Global Earthquake Visualization'', fig_map f] @
     [Subheader ''Model Feature Importance''] @
     feature_importance m (input_data f)"

text \<open>
  One run of the script from the input summary on (lines 79 to 191): the elements
  rendered, and the exception that ended the run, if any. \<open>clicked\<close> is the value of
  the button, \<open>now\<close> the formatted wall-clock time.
\<close>

definition script :: "model \<Rightarrow> form \<Rightarrow> bool \<Rightarrow> string \<Rightarrow> element list \<times> error option" where
  "script m f clicked now =
     (let summary = [Markdown ''### Input Summary'', Dataframe (input_data f)]
      in if clicked
         then (case run_prediction m (input_data f) of
                 Inl e \<Rightarrow> (summary, Some e)
               | Inr (prediction, prob) \<Rightarrow>
                   (summary @ present m f now prediction prob, None))
         else (summary @
                 [Info (''Adjust earthquake parameters and click '' @
                        ''**Run Tsunami Risk Prediction** to begin.'')], None))"

subsection \<open>Loading the classifier (lines 39 to 43)\<close>

text \<open>
  Modelled from the spec: the decorator \<open>st.cache_resource\<close> on \<open>load_model\<close>
  belongs to the user-interface library, whose code is not among the sources. The spec
  gives it as a process-wide memo of the one result, keyed by the constant path and
  invalidated only when the process restarts: a call that finds the cache filled
  returns the cached object, a call that finds it empty runs the body and stores what
  the body returns; a body that raises stores nothing.

  The body is \<open>joblib.load("Tsunami_model.pkl")\<close>. The content of the file is the
  parameter \<open>artifact\<close>: the classifier it holds, or the exception that reading it
  raises. Every deserialization creates a new object; an object is known by its
  reference, its position among the objects created so far, and \<open>joblib_calls\<close>
  counts the deserializations.
\<close>

type_synonym ref = nat

record process =
  cache :: "ref option"
  objects :: "model list"
  joblib_calls :: nat

definition new_process :: process where
  "new_process = \<lparr>cache = None, objects = [], joblib_calls = 0\<rparr>"

definition joblib_load :: "error + model \<Rightarrow> process \<Rightarrow> (error + ref) \<times> process" where
  "joblib_load artifact s =
     (let s' = s\<lparr>joblib_calls := Suc (joblib_calls s)\<rparr>
      in case artifact of
           Inl e \<Rightarrow> (Inl e, s')
         | Inr m \<Rightarrow> (Inr (length (objects s)), s'\<lparr>objects := objects s @ [m]\<rparr>))"

definition load_model :: "error + model \<Rightarrow> process \<Rightarrow> (error + ref) \<times> process" where
  "load_model artifact s =
     (case cache s of
        Some r \<Rightarrow> (Inr r, s)
      | None \<Rightarrow>
          (case joblib_load artifact s of
             (Inl e, s') \<Rightarrow> (Inl e, s')
           | (Inr r, s') \<Rightarrow> (Inr r, s'\<lparr>cache := Some r\<rparr>)))"

text \<open>\<open>n\<close> calls one after the other: their results in order, and the process after them.\<close>

fun load_model_times ::
  "nat \<Rightarrow> error + model \<Rightarrow> process \<Rightarrow> (error + ref) list \<times> process" where
  "load_model_times 0 artifact s = ([], s)"
| "load_model_times (Suc n) artifact s =
     (case load_model artifact s of
        (r, s') \<Rightarrow> (case load_model_times n artifact s' of (rs, s'') \<Rightarrow> (r # rs, s'')))"

subsection \<open>Stub classifiers\<close>

text \<open>A classifier whose three operations answer the same whatever the input.\<close>

definition stub :: "error + int list \<Rightarrow> error + real list list \<Rightarrow> error + real list \<Rightarrow> model" where
  "stub labels probabilities importances =
     \<lparr>predict = (\<lambda>df. labels), predict_proba = (\<lambda>df. probabilities),
      feature_importances = importances\<rparr>"

text \<open>
  A classifier that returns the class \<open>c\<close> and the probability \<open>p\<close> of class 1, and
  has no feature importances.
\<close>

definition stub_model :: "int \<Rightarrow> real \<Rightarrow> model" where
  "stub_model c p = stub (Inr [c]) (Inr [[1 - p, p]]) (Inl AttributeError)"

subsection \<open>The schema of the input record as the data model of the specification gives it\<close>

text \<open>
  The twelve fields in the order in which the data model lists them, the column of
  the input record that carries each, and the bounds the data model declares.
\<close>

datatype field =
    Field_magnitude | Field_depth | Field_community_intensity | Field_Mercalli_intensity
  | Field_significance | Field_station_count | Field_minimum_station_distance
  | Field_azimuthal_gap | Field_latitude | Field_longitude | Field_year | Field_month

definition schema_fields :: "field list" where
  "schema_fields =
     [Field_magnitude, Field_depth, Field_community_intensity, Field_Mercalli_intensity,
      Field_significance, Field_station_count, Field_minimum_station_distance,
      Field_azimuthal_gap, Field_latitude, Field_longitude, Field_year, Field_month]"

fun column_name :: "field \<Rightarrow> string" where
  "column_name Field_magnitude = ''magnitude''"
| "column_name Field_depth = ''depth''"
| "column_name Field_community_intensity = ''cdi''"
| "column_name Field_Mercalli_intensity = ''mmi''"
| "column_name Field_significance = ''sig''"
| "column_name Field_station_count = ''nst''"
| "column_name Field_minimum_station_distance = ''dmin''"
| "column_name Field_azimuthal_gap = ''gap''"
| "column_name Field_latitude = ''latitude''"
| "column_name Field_longitude = ''longitude''"
| "column_name Field_year = ''Year''"
| "column_name Field_month = ''Month''"

fun schema_bounds :: "field \<Rightarrow> real \<times> real" where
  "schema_bounds Field_magnitude = (4.0, 10.0)"
| "schema_bounds Field_depth = (0, 700)"
| "schema_bounds Field_community_intensity = (0, 10)"
| "schema_bounds Field_Mercalli_intensity = (0, 10)"
| "schema_bounds Field_significance = (0, 1000)"
| "schema_bounds Field_station_count = (0, 1000)"
| "schema_bounds Field_minimum_station_distance = (0, 10)"
| "schema_bounds Field_azimuthal_gap = (0, 180)"
| "schema_bounds Field_latitude = (- 90, 90)"
| "schema_bounds Field_longitude = (- 180, 180)"
| "schema_bounds Field_year = (1900, 2025)"
| "schema_bounds Field_month = (1, 12)"

definition schema_columns :: "string list" where
  "schema_columns = map column_name schema_fields"

definition cell_value :: "cell \<Rightarrow> real" where
  "cell_value c = (case c of IntCell i \<Rightarrow> of_int i | FloatCell x \<Rightarrow> x)"

definition field_within_bounds :: "dataframe \<Rightarrow> field \<Rightarrow> bool" where
  "field_within_bounds df fld =
     (case column_value df (column_name fld) of
        None \<Rightarrow> False
      | Some c \<Rightarrow> fst (schema_bounds fld) \<le> cell_value c \<and> cell_value c \<le> snd (schema_bounds fld))"

definition record_within_bounds :: "dataframe \<Rightarrow> bool" where
  "record_within_bounds df = list_all (field_within_bounds df) schema_fields"

subsection \<open>The severity bands of the gauge as the specification gives them\<close>

text \<open>
  Three bands on the axis from 0 to 100, each with its two ends, whether the upper end
  belongs to it, and its colour: low from 0 up to 40 in green, moderate from 40 up to
  70 in gold, high from 70 to 100 inclusive in tomato.
\<close>

record band =
  band_from :: int
  band_to :: int
  to_included :: bool
  band_name :: string

definition severity_bands :: "band list" where
  "severity_bands =
     [\<lparr>band_from = 0, band_to = 40, to_included = False, band_name = ''green''\<rparr>,
      \<lparr>band_from = 40, band_to = 70, to_included = False, band_name = ''gold''\<rparr>,
      \<lparr>band_from = 70, band_to = 100, to_included = True, band_name = ''tomato''\<rparr>]"

text \<open>The step of a gauge that draws a band: its two ends and its colour.\<close>

definition band_step :: "band \<Rightarrow> (int \<times> int) \<times> string" where
  "band_step b = ((band_from b, band_to b), band_name b)"

section \<open>Properties\<close>

subsection \<open>The input record\<close>

lemma columns_input_data:
  "columns (input_data f) =
     [''magnitude'', ''cdi'', ''mmi'', ''sig'', ''nst'', ''dmin'', ''gap'', ''depth'',
      ''latitude'', ''longitude'', ''Year'', ''Month'']"
  by (simp add: columns_def input_data_def)

lemma schema_columns_eq:
  "schema_columns =
     [''magnitude'', ''depth'', ''cdi'', ''mmi'', ''sig'', ''nst'', ''dmin'', ''gap'',
      ''latitude'', ''longitude'', ''Year'', ''Month'']"
  by (simp add: schema_columns_def schema_fields_def)

text \<open>
  Claim C1, as stated: the columns of the assembled record are the fields of the data
  model in the order in which the data model lists them, magnitude first and depth
  second. This fails for the form as it first appears (month 11): the second column of
  the record is \<open>cdi\<close>, and \<open>depth\<close> is the eighth.
\<close>

theorem input_data_schema_order_counterexample:
  "columns (input_data (default_form 11)) \<noteq> schema_columns"
  by (simp add: columns_input_data schema_columns_eq)

text \<open>
  Claim C1, amended: for every form, the record has twelve distinct columns, which are
  the columns of the twelve fields of the data model, in the fixed order magnitude,
  community intensity, Mercalli intensity, significance, station count, minimum station
  distance, azimuthal gap, depth, latitude, longitude, year, month (depth after the
  azimuthal gap, not after the magnitude).
\<close>

theorem input_data_columns:
  "columns (input_data f) =
     [''magnitude'', ''cdi'', ''mmi'', ''sig'', ''nst'', ''dmin'', ''gap'', ''depth'',
      ''latitude'', ''longitude'', ''Year'', ''Month''] \<and>
   columns (input_data f) =
     map column_name
       [Field_magnitude, Field_community_intensity, Field_Mercalli_intensity,
        Field_significance, Field_station_count, Field_minimum_station_distance,
        Field_azimuthal_gap, Field_depth, Field_latitude, Field_longitude, Field_year,
        Field_month] \<and>
   distinct (columns (input_data f)) \<and>
   set (columns (input_data f)) = set schema_columns"
proof -
  have perm: "set (columns (input_data f)) = set schema_columns"
    unfolding columns_input_data schema_columns_eq
    by (simp only: list.set insert_commute)
  have dist: "distinct (columns (input_data f))"
    unfolding columns_input_data by simp
  show ?thesis
    using columns_input_data [of f] perm dist by simp
qed

theorem input_data_columns_witness:
  "columns (input_data (default_form 11)) =
     [''magnitude'', ''cdi'', ''mmi'', ''sig'', ''nst'', ''dmin'', ''gap'', ''depth'',
      ''latitude'', ''longitude'', ''Year'', ''Month''] \<and>
   columns (input_data (default_form 11)) ! 7 = column_name Field_depth \<and>
   schema_columns ! 1 = column_name Field_depth"
  using input_data_columns [of "default_form 11"]
  by (simp add: schema_columns_eq)

text \<open>
  Claim C7: for each of the twelve fields, the value that the record holds in the
  column of the field is the current value of the control of that field, unchanged;
  the record has no other entry.
\<close>

theorem input_data_values:
  "column_value (input_data f) ''magnitude'' = Some (FloatCell (magnitude f)) \<and>
   column_value (input_data f) ''depth'' = Some (FloatCell (depth f)) \<and>
   column_value (input_data f) ''cdi'' = Some (IntCell (cdi f)) \<and>
   column_value (input_data f) ''mmi'' = Some (IntCell (mmi f)) \<and>
   column_value (input_data f) ''sig'' = Some (IntCell (sig f)) \<and>
   column_value (input_data f) ''nst'' = Some (IntCell (nst f)) \<and>
   column_value (input_data f) ''dmin'' = Some (FloatCell (dmin f)) \<and>
   column_value (input_data f) ''gap'' = Some (FloatCell (gap f)) \<and>
   column_value (input_data f) ''latitude'' = Some (FloatCell (latitude f)) \<and>
   column_value (input_data f) ''longitude'' = Some (FloatCell (longitude f)) \<and>
   column_value (input_data f) ''Year'' = Some (IntCell (year f)) \<and>
   column_value (input_data f) ''Month'' = Some (IntCell (month f)) \<and>
   length (input_data f) = 12"
  by (simp add: column_value_def input_data_def)

theorem input_data_values_witness:
  "column_value (input_data (default_form 11)) ''magnitude'' = Some (FloatCell (13 / 2)) \<and>
   column_value (input_data (default_form 11)) ''depth'' = Some (FloatCell 50) \<and>
   column_value (input_data (default_form 11)) ''sig'' = Some (IntCell 600) \<and>
   column_value (input_data (default_form 11)) ''Year'' = Some (IntCell 2024) \<and>
   column_value (input_data (default_form 11)) ''Month'' = Some (IntCell 11)"
  using input_data_values [of "default_form 11"]
  by (simp add: default_form_def magnitude_control_def depth_control_def sig_control_def
      year_control_def month_control_def)

lemmas control_defs =
  magnitude_control_def depth_control_def cdi_control_def mmi_control_def
  sig_control_def nst_control_def dmin_control_def gap_control_def
  latitude_control_def longitude_control_def year_control_def month_control_def

text \<open>
  Claim C8: when every control holds a value of the range the script declares for it,
  every value of the assembled record lies within the bounds that the data model
  declares for its field.
\<close>

theorem input_data_within_bounds:
  "form_in_range now_month f \<Longrightarrow> record_within_bounds (input_data f)"
  by (simp add: form_in_range_def in_range_def record_within_bounds_def schema_fields_def
      field_within_bounds_def column_value_def input_data_def cell_value_def control_defs)

theorem input_data_within_bounds_witness:
  "form_in_range 11 (default_form 11) \<and> record_within_bounds (input_data (default_form 11))"
proof -
  have h: "form_in_range 11 (default_form 11)"
    by (simp add: form_in_range_def in_range_def default_form_def control_defs)
  from input_data_within_bounds [OF h] h show ?thesis by simp
qed

subsection \<open>The map\<close>

text \<open>
  Claim C4: the risk level of the point on the map is a function of the magnitude
  alone: High from 7 on, Moderate from 5 up to 7, Low below 5; so 7.5 is High, 6.0 is
  Moderate and 4.0 is Low.
\<close>

theorem risk_bucket:
  "Risk_Level (make_map_df f) = risk_level (magnitude f) \<and>
   (7 \<le> mag \<longrightarrow> risk_level mag = ''High'') \<and>
   (5 \<le> mag \<and> mag < 7 \<longrightarrow> risk_level mag = ''Moderate'') \<and>
   (mag < 5 \<longrightarrow> risk_level mag = ''Low'') \<and>
   risk_level 7.5 = ''High'' \<and> risk_level 6.0 = ''Moderate'' \<and> risk_level 4.0 = ''Low''"
  by (simp add: make_map_df_def risk_level_def)

theorem risk_bucket_witness:
  "(7::real) \<le> 9 \<and> risk_level 9 = ''High'' \<and>
   (5::real) \<le> 5 \<and> (5::real) < 7 \<and> risk_level 5 = ''Moderate'' \<and>
   (9 / 2 :: real) < 5 \<and> risk_level (9 / 2) = ''Low'' \<and>
   Risk_Level (make_map_df (default_form 11)) = ''Moderate''"
  using risk_bucket [of "default_form 11" 9] risk_bucket [of "default_form 11" 5]
    risk_bucket [of "default_form 11" "9 / 2"]
    risk_bucket [of "default_form 11" "magnitude (default_form 11)"]
  by (simp add: default_form_def magnitude_control_def)

subsection \<open>The predictor\<close>

lemma run_prediction_stub:
  "run_prediction (stub_model c p) df = Inr (c, p * 100)"
  by (simp add: run_prediction_def stub_model_def stub_def and_then_def item_def)

lemma predict_raises:
  "predict m df = Inl e \<Longrightarrow> run_prediction m df = Inl e"
  by (simp add: run_prediction_def and_then_def)

lemma predict_proba_raises:
  "predict m df = Inr (l # ls) \<Longrightarrow> predict_proba m df = Inl e \<Longrightarrow>
   run_prediction m df = Inl e"
  by (simp add: run_prediction_def and_then_def item_def)

text \<open>
  Claim C2, as stated: for every input record the predictor returns a class label that
  is 0 or 1. The predictor passes on whatever label the classifier gives: with a
  classifier that answers class 2 for the input record of the default form, the label
  returned is 2.
\<close>

theorem run_prediction_label_counterexample:
  "run_prediction (stub_model 2 (1 / 2)) (input_data (default_form 11)) = Inr (2, 50) \<and>
   (2::int) \<notin> {0, 1}"
  by (simp add: run_prediction_stub)

text \<open>
  Claim C2, amended: whenever the classification returns at least one label and the
  probability estimation returns a first row of at least two probabilities, the
  predictor returns the first label as the classifier gives it, which is 0 or 1
  whenever the labels of the classifier are, and the probability of class 1 (the second
  entry of the first row) multiplied by 100, which lies between 0 and 100 whenever the
  probabilities of the row lie between 0 and 1.
\<close>

theorem run_prediction_result:
  assumes "predict m df = Inr (l # ls)"
    and "predict_proba m df = Inr ((p0 # p1 # ps) # rows)"
  shows "run_prediction m df = Inr (l, p1 * 100) \<and>
         (set (l # ls) \<subseteq> {0, 1} \<longrightarrow> l \<in> {0, 1}) \<and>
         ((\<forall>q \<in> set (p0 # p1 # ps). 0 \<le> q \<and> q \<le> 1) \<longrightarrow>
            0 \<le> p1 * 100 \<and> p1 * 100 \<le> 100)"
  using assms by (simp add: run_prediction_def and_then_def item_def)

theorem run_prediction_result_witness:
  "predict (stub_model 1 (82 / 100)) (input_data (default_form 11)) = Inr (1 # []) \<and>
   predict_proba (stub_model 1 (82 / 100)) (input_data (default_form 11)) =
     Inr ((18 / 100 # 82 / 100 # []) # []) \<and>
   run_prediction (stub_model 1 (82 / 100)) (input_data (default_form 11)) = Inr (1, 82) \<and>
   set [1::int] \<subseteq> {0, 1} \<and> (1::int) \<in> {0, 1} \<and>
   (0::real) \<le> 18 / 100 \<and> (18 / 100 :: real) \<le> 1 \<and>
   (0::real) \<le> 82 / 100 \<and> (82 / 100 :: real) \<le> 1 \<and>
   (0::real) \<le> 82 \<and> (82::real) \<le> 100"
proof -
  have a: "predict (stub_model 1 (82 / 100)) (input_data (default_form 11)) = Inr (1 # [])"
    by (simp add: stub_model_def stub_def)
  have b: "predict_proba (stub_model 1 (82 / 100)) (input_data (default_form 11)) =
     Inr ((18 / 100 # 82 / 100 # []) # [])"
    by (simp add: stub_model_def stub_def)
  from run_prediction_result [OF a b] a b show ?thesis by simp
qed

subsection \<open>The presenter\<close>

lemma script_clicked:
  "run_prediction m (input_data f) = Inr (l, prob) \<Longrightarrow>
   script m f True now =
     ([Markdown ''### Input Summary'', Dataframe (input_data f)] @ present m f now l prob, None)"
  by (simp add: script_def)

lemma script_raised:
  "run_prediction m (input_data f) = Inl e \<Longrightarrow>
   script m f True now =
     ([Markdown ''### Input Summary'', Dataframe (input_data f)], Some e)"
  by (simp add: script_def)

lemma take_present:
  "take 4 (present m f now l prob) = Markdown ''---'' # verdict l @ [probability_metric prob]"
  by (simp add: present_def col1_def verdict_def high_risk_branch_def safe_branch_def)

lemma feature_importance_cases:
  "feature_importance m df = [fallback_notice] \<or> (\<exists>c. feature_importance m df = [Bar_Chart c])"
  by (auto simp: feature_importance_def fig_imp_def and_then_def split: sum.splits)

lemma feature_importance_missing:
  "feature_importances m = Inl e \<Longrightarrow> feature_importance m df = [fallback_notice]"
  by (simp add: feature_importance_def fig_imp_def and_then_def)

lemma set_present:
  "set (present m f now l prob) =
     {Markdown ''---'', probability_metric prob, Gauge_Chart (fig_gauge prob),
      Info (''**Last Updated:** '' @ now), Subheader ''Global Earthquake Visualization'',
      fig_map f, Subheader ''Model Feature Importance''} \<union>
     set (verdict l) \<union> set (feature_importance m (input_data f))"
  by (auto simp: present_def col1_def)

lemmas element_defs =
  verdict_def high_risk_branch_def safe_branch_def probability_metric_def
  fig_map_def fallback_notice_def Let_def

lemma show_nat_82: "show_nat 82 = ''82''"
  by (simp add: show_nat.simps [of 82] show_nat.simps [of 8] digit_char_def)

lemma format_2f_82: "format_2f 82 = ''82.00''"
  by (simp add: format_2f_def round_half_even_def show_nat_82 digit_char_def)

lemma format_2f_30: "format_2f 30 = ''30.00''"
  by (simp add: format_2f_def round_half_even_def show_nat.simps [of 30]
      show_nat.simps [of 3] digit_char_def)

text \<open>
  Claim C3: with a classifier that returns class 1 and probability 0.82, the run
  renders, after the input summary and the rule, the high-risk heading with its
  warning, and the metric with the text \<open>82.00 %\<close>; with a classifier that returns
  any other class, the same place holds the safe-conditions heading with its notice,
  and the metric holds the percentage in the format \<open>.2f\<close>.
\<close>

theorem presenter_stub:
  "take 6 (fst (script (stub_model 1 (82 / 100)) f True now)) =
     [Markdown ''### Input Summary'', Dataframe (input_data f), Markdown ''---''] @
     high_risk_branch @ [Metric ''Tsunami Risk Probability'' ''82.00 %''] \<and>
   snd (script (stub_model 1 (82 / 100)) f True now) = None \<and>
   hd high_risk_branch = Markdown ''### **High Tsunami Probability Detected**'' \<and>
   (\<forall>c p. c \<noteq> 1 \<longrightarrow>
      take 6 (fst (script (stub_model c p) f True now)) =
        [Markdown ''### Input Summary'', Dataframe (input_data f), Markdown ''---''] @
        safe_branch @ [Metric ''Tsunami Risk Probability'' (format_2f (p * 100) @ '' %'')]) \<and>
   hd safe_branch = Markdown ''### **No Major Tsunami Risk**''"
proof -
  have s: "fst (script (stub_model c p) f True now) =
      [Markdown ''### Input Summary'', Dataframe (input_data f)] @
      present (stub_model c p) f now c (p * 100)"
     and n: "snd (script (stub_model c p) f True now) = None" for c p
    by (simp_all add: script_clicked [OF run_prediction_stub])
  have t: "take 6 (fst (script (stub_model c p) f True now)) =
      [Markdown ''### Input Summary'', Dataframe (input_data f), Markdown ''---''] @
      verdict c @ [probability_metric (p * 100)]" for c p
    using take_present [of "stub_model c p" f now c "p * 100"] by (simp add: s)
  have hi: "take 6 (fst (script (stub_model 1 (82 / 100)) f True now)) =
     [Markdown ''### Input Summary'', Dataframe (input_data f), Markdown ''---''] @
     high_risk_branch @ [Metric ''Tsunami Risk Probability'' ''82.00 %'']"
    by (simp add: t verdict_def probability_metric_def format_2f_82)
  have lo: "c \<noteq> 1 \<Longrightarrow> take 6 (fst (script (stub_model c p) f True now)) =
        [Markdown ''### Input Summary'', Dataframe (input_data f), Markdown ''---''] @
        safe_branch @ [Metric ''Tsunami Risk Probability'' (format_2f (p * 100) @ '' %'')]"
    for c p
    by (simp add: t verdict_def probability_metric_def)
  show ?thesis
    using hi lo n by (simp add: high_risk_branch_def safe_branch_def)
qed

theorem presenter_stub_witness:
  "(0::int) \<noteq> 1 \<and>
   take 6 (fst (script (stub_model 0 (3 / 10)) (default_form 11) True ''2026-11-04 10:00:00'')) =
     [Markdown ''### Input Summary'', Dataframe (input_data (default_form 11)),
      Markdown ''---'', Markdown ''### **No Major Tsunami Risk**'',
      Success ''Safe conditions predicted no significant tsunami risk detected.'',
      Metric ''Tsunami Risk Probability'' ''30.00 %'']"
proof -
  from presenter_stub [of "default_form 11" "''2026-11-04 10:00:00''"]
  have "(0::int) \<noteq> 1 \<longrightarrow>
      take 6 (fst (script (stub_model 0 (3 / 10)) (default_form 11) True ''2026-11-04 10:00:00'')) =
        [Markdown ''### Input Summary'', Dataframe (input_data (default_form 11)), Markdown ''---''] @
        safe_branch @ [Metric ''Tsunami Risk Probability'' (format_2f ((3 / 10) * 100) @ '' %'')]"
    by blast
  then show ?thesis by (simp add: format_2f_30 safe_branch_def)
qed

text \<open>
  Claim C10: whatever label the classifier returns, a label other than 1 (0, 2, a
  negative number) makes the run render the safe-conditions branch and nothing of the
  high-risk branch; the high-risk branch is rendered exactly when the label is 1, and
  then nothing of the safe-conditions branch is. The two branches have no element in
  common.
\<close>

theorem verdict_branch:
  assumes "run_prediction m (input_data f) = Inr (l, prob)"
  shows "(l \<noteq> 1 \<longrightarrow>
            set safe_branch \<subseteq> set (fst (script m f True now)) \<and>
            set high_risk_branch \<inter> set (fst (script m f True now)) = {}) \<and>
         (l = 1 \<longrightarrow>
            set high_risk_branch \<subseteq> set (fst (script m f True now)) \<and>
            set safe_branch \<inter> set (fst (script m f True now)) = {}) \<and>
         verdict l = (if l = 1 then high_risk_branch else safe_branch) \<and>
         set high_risk_branch \<inter> set safe_branch = {}"
proof -
  have s: "set (fst (script m f True now)) =
      {Markdown ''### Input Summary'', Dataframe (input_data f)} \<union>
      set (present m f now l prob)"
    by (simp add: script_clicked [OF assms])
  show ?thesis
    using feature_importance_cases [of m "input_data f"]
    unfolding s set_present
    by (auto simp: element_defs)
qed

theorem verdict_branch_witness:
  "run_prediction (stub_model 2 (1 / 2)) (input_data (default_form 11)) = Inr (2, 50) \<and>
   (2::int) \<noteq> 1 \<and>
   set safe_branch \<subseteq>
     set (fst (script (stub_model 2 (1 / 2)) (default_form 11) True ''2026-11-04 10:00:00'')) \<and>
   set high_risk_branch \<inter>
     set (fst (script (stub_model 2 (1 / 2)) (default_form 11) True ''2026-11-04 10:00:00'')) = {} \<and>
   run_prediction (stub_model 1 (1 / 2)) (input_data (default_form 11)) = Inr (1, 50) \<and>
   set high_risk_branch \<subseteq>
     set (fst (script (stub_model 1 (1 / 2)) (default_form 11) True ''2026-11-04 10:00:00'')) \<and>
   set safe_branch \<inter>
     set (fst (script (stub_model 1 (1 / 2)) (default_form 11) True ''2026-11-04 10:00:00'')) = {}"
proof -
  have a: "run_prediction (stub_model 2 (1 / 2)) (input_data (default_form 11)) = Inr (2, 50)"
    and b: "run_prediction (stub_model 1 (1 / 2)) (input_data (default_form 11)) = Inr (1, 50)"
    by (simp_all add: run_prediction_stub)
  from verdict_branch [OF a, of "''2026-11-04 10:00:00''"]
    verdict_branch [OF b, of "''2026-11-04 10:00:00''"] a b
  show ?thesis by simp
qed

text \<open>
  Claim C5: when reading the feature importances of the classifier raises (the
  classifier has none), the exception is caught: the chart is replaced by the notice,
  the run ends without an exception, the notice is its last element and no bar chart
  is rendered. An exception raised by the classification, or by the probability
  estimation, ends the run after the input summary and is the exception of the run.
\<close>

theorem feature_importance_recovered:
  "(feature_importances m = Inl e \<longrightarrow> feature_importance m df = [fallback_notice]) \<and>
   (feature_importances m = Inl e \<and> run_prediction m (input_data f) = Inr (l, prob) \<longrightarrow>
      snd (script m f True now) = None \<and>
      last (fst (script m f True now)) = fallback_notice \<and>
      (\<forall>c. Bar_Chart c \<notin> set (fst (script m f True now)))) \<and>
   (predict m (input_data f) = Inl e \<longrightarrow>
      script m f True now =
        ([Markdown ''### Input Summary'', Dataframe (input_data f)], Some e)) \<and>
   (predict m (input_data f) = Inr (l # ls) \<and> predict_proba m (input_data f) = Inl e \<longrightarrow>
      script m f True now =
        ([Markdown ''### Input Summary'', Dataframe (input_data f)], Some e))"
proof -
  have 1: "feature_importances m = Inl e \<longrightarrow> feature_importance m df = [fallback_notice]"
    by (simp add: feature_importance_missing)
  have 2: "snd (script m f True now) = None \<and>
      last (fst (script m f True now)) = fallback_notice \<and>
      (\<forall>c. Bar_Chart c \<notin> set (fst (script m f True now)))"
    if fi: "feature_importances m = Inl e"
      and rp: "run_prediction m (input_data f) = Inr (l, prob)"
  proof -
    have s: "set (fst (script m f True now)) =
      {Markdown ''### Input Summary'', Dataframe (input_data f)} \<union>
      set (present m f now l prob)"
      by (simp add: script_clicked [OF rp])
    have nb: "\<forall>c. Bar_Chart c \<notin> set (fst (script m f True now))"
      unfolding s set_present feature_importance_missing [OF fi]
      by (auto simp: element_defs)
    have la: "last (fst (script m f True now)) = fallback_notice"
      by (simp add: script_clicked [OF rp] present_def feature_importance_missing [OF fi])
    show ?thesis
      using nb la by (simp add: script_clicked [OF rp])
  qed
  have 3: "predict m (input_data f) = Inl e \<longrightarrow>
      script m f True now =
        ([Markdown ''### Input Summary'', Dataframe (input_data f)], Some e)"
    by (simp add: script_raised predict_raises)
  have 4: "predict m (input_data f) = Inr (l # ls) \<and> predict_proba m (input_data f) = Inl e \<longrightarrow>
      script m f True now =
        ([Markdown ''### Input Summary'', Dataframe (input_data f)], Some e)"
    by (simp add: script_raised predict_proba_raises)
  show ?thesis
    using 1 2 3 4 by blast
qed

theorem feature_importance_recovered_witness:
  "feature_importances (stub_model 1 (82 / 100)) = Inl AttributeError \<and>
   run_prediction (stub_model 1 (82 / 100)) (input_data (default_form 11)) = Inr (1, 82) \<and>
   snd (script (stub_model 1 (82 / 100)) (default_form 11) True ''2026-11-04 10:00:00'') = None \<and>
   last (fst (script (stub_model 1 (82 / 100)) (default_form 11) True ''2026-11-04 10:00:00'')) =
     Info ''Feature importance is not available for this model type.'' \<and>
   predict (stub (Inl (Raised ''NotFittedError'')) (Inr []) (Inr []))
     (input_data (default_form 11)) = Inl (Raised ''NotFittedError'') \<and>
   snd (script (stub (Inl (Raised ''NotFittedError'')) (Inr []) (Inr []))
     (default_form 11) True ''2026-11-04 10:00:00'') = Some (Raised ''NotFittedError'') \<and>
   predict (stub (Inr [1]) (Inl (Raised ''NotFittedError'')) (Inr []))
     (input_data (default_form 11)) = Inr (1 # []) \<and>
   predict_proba (stub (Inr [1]) (Inl (Raised ''NotFittedError'')) (Inr []))
     (input_data (default_form 11)) = Inl (Raised ''NotFittedError'') \<and>
   snd (script (stub (Inr [1]) (Inl (Raised ''NotFittedError'')) (Inr []))
     (default_form 11) True ''2026-11-04 10:00:00'') = Some (Raised ''NotFittedError'')"
proof -
  have a: "feature_importances (stub_model 1 (82 / 100)) = Inl AttributeError"
    by (simp add: stub_model_def stub_def)
  have b: "run_prediction (stub_model 1 (82 / 100)) (input_data (default_form 11)) = Inr (1, 82)"
    by (simp add: run_prediction_stub)
  have c: "predict (stub (Inl (Raised ''NotFittedError'')) (Inr []) (Inr []))
     (input_data (default_form 11)) = Inl (Raised ''NotFittedError'')"
    by (simp add: stub_def)
  have d: "predict (stub (Inr [1]) (Inl (Raised ''NotFittedError'')) (Inr []))
     (input_data (default_form 11)) = Inr (1 # [])"
    and e: "predict_proba (stub (Inr [1]) (Inl (Raised ''NotFittedError'')) (Inr []))
     (input_data (default_form 11)) = Inl (Raised ''NotFittedError'')"
    by (simp_all add: stub_def)
  from feature_importance_recovered
      [of "stub_model 1 (82 / 100)" AttributeError "input_data (default_form 11)"
        "default_form 11" 1 82 "''2026-11-04 10:00:00''" "[]"] a b
  have 1: "snd (script (stub_model 1 (82 / 100)) (default_form 11) True
        ''2026-11-04 10:00:00'') = None \<and>
      last (fst (script (stub_model 1 (82 / 100)) (default_form 11) True
        ''2026-11-04 10:00:00'')) = fallback_notice"
    by blast
  from feature_importance_recovered
      [of "stub (Inl (Raised ''NotFittedError'')) (Inr []) (Inr [])" "Raised ''NotFittedError''"
        "input_data (default_form 11)" "default_form 11" 1 82 "''2026-11-04 10:00:00''" "[]"] c
  have 2: "snd (script (stub (Inl (Raised ''NotFittedError'')) (Inr []) (Inr []))
     (default_form 11) True ''2026-11-04 10:00:00'') = Some (Raised ''NotFittedError'')"
    by simp
  from feature_importance_recovered
      [of "stub (Inr [1]) (Inl (Raised ''NotFittedError'')) (Inr [])" "Raised ''NotFittedError''"
        "input_data (default_form 11)" "default_form 11" 1 82 "''2026-11-04 10:00:00''" "[]"] d e
  have 3: "snd (script (stub (Inr [1]) (Inl (Raised ''NotFittedError'')) (Inr []))
     (default_form 11) True ''2026-11-04 10:00:00'') = Some (Raised ''NotFittedError'')"
    by simp
  show ?thesis
    using a b c d e 1 2 3 by (simp add: fallback_notice_def)
qed

text \<open>
  Claim C9, as stated: the three steps of the gauge are the three bands of the
  specification, the low band in green. The first step of the gauge of the script is
  in light green (the colour \<open>lightgreen\<close>), whatever the probability; here for the
  percentage 82.
\<close>

theorem gauge_low_band_colour_counterexample:
  "steps (fig_gauge 82) \<noteq> map band_step severity_bands \<and>
   snd (hd (steps (fig_gauge 82))) \<noteq> band_name (hd severity_bands)"
  by (simp add: fig_gauge_def severity_bands_def band_step_def)

text \<open>
  Claim C9, amended: the run renders one gauge. Its value is the percentage that the
  metric shows, its axis runs from 0 to 100, and it has exactly three steps, each given
  by its two ends: 0 to 40 in \<open>lightgreen\<close>, 40 to 70 in \<open>gold\<close>, 70 to 100 in
  \<open>tomato\<close>. The ends of the steps are the ends of the three bands of the
  specification, and the colours of the moderate and of the high band are those of the
  specification. (A step is a pair of ends: the script does not say to which of two
  adjacent steps the common end 40, or 70, belongs.)
\<close>

theorem gauge_bands:
  assumes "run_prediction m (input_data f) = Inr (l, prob)"
  shows "Gauge_Chart (fig_gauge prob) \<in> set (fst (script m f True now)) \<and>
         (\<forall>g. Gauge_Chart g \<in> set (fst (script m f True now)) \<longrightarrow> g = fig_gauge prob) \<and>
         probability_metric prob \<in> set (fst (script m f True now)) \<and>
         gauge_value (fig_gauge prob) = prob \<and>
         axis_range (fig_gauge prob) = (0, 100) \<and>
         steps (fig_gauge prob) =
           [((0, 40), ''lightgreen''), ((40, 70), ''gold''), ((70, 100), ''tomato'')] \<and>
         length (steps (fig_gauge prob)) = 3 \<and>
         map fst (steps (fig_gauge prob)) = map (fst \<circ> band_step) severity_bands \<and>
         tl (steps (fig_gauge prob)) = map band_step (tl severity_bands)"
proof -
  have s: "set (fst (script m f True now)) =
      {Markdown ''### Input Summary'', Dataframe (input_data f)} \<union>
      set (present m f now l prob)"
    by (simp add: script_clicked [OF assms])
  have only: "\<forall>g. Gauge_Chart g \<in> set (fst (script m f True now)) \<longrightarrow> g = fig_gauge prob"
    using feature_importance_cases [of m "input_data f"]
    unfolding s set_present
    by (auto simp: element_defs)
  have mem: "Gauge_Chart (fig_gauge prob) \<in> set (fst (script m f True now)) \<and>
         probability_metric prob \<in> set (fst (script m f True now))"
    unfolding s set_present by simp
  have bands: "map fst (steps (fig_gauge prob)) = map (fst \<circ> band_step) severity_bands \<and>
         tl (steps (fig_gauge prob)) = map band_step (tl severity_bands)"
    by (simp add: fig_gauge_def severity_bands_def band_step_def)
  have data: "gauge_value (fig_gauge prob) = prob \<and>
         axis_range (fig_gauge prob) = (0, 100) \<and>
         steps (fig_gauge prob) =
           [((0, 40), ''lightgreen''), ((40, 70), ''gold''), ((70, 100), ''tomato'')] \<and>
         length (steps (fig_gauge prob)) = 3"
    by (simp add: fig_gauge_def)
  show ?thesis
    using only mem bands data by blast
qed

theorem gauge_bands_witness:
  "run_prediction (stub_model 1 (82 / 100)) (input_data (default_form 11)) = Inr (1, 82) \<and>
   Gauge_Chart (fig_gauge 82) \<in>
     set (fst (script (stub_model 1 (82 / 100)) (default_form 11) True ''2026-11-04 10:00:00'')) \<and>
   probability_metric 82 \<in>
     set (fst (script (stub_model 1 (82 / 100)) (default_form 11) True ''2026-11-04 10:00:00'')) \<and>
   gauge_value (fig_gauge 82) = 82 \<and>
   axis_range (fig_gauge 82) = (0, 100) \<and>
   steps (fig_gauge 82) =
     [((0, 40), ''lightgreen''), ((40, 70), ''gold''), ((70, 100), ''tomato'')]"
proof -
  have a: "run_prediction (stub_model 1 (82 / 100)) (input_data (default_form 11)) = Inr (1, 82)"
    by (simp add: run_prediction_stub)
  from gauge_bands [OF a, of "''2026-11-04 10:00:00''"] a
  show ?thesis by simp
qed

subsection \<open>Loading the classifier\<close>

lemma load_model_times_cached:
  "cache s = Some r \<Longrightarrow> load_model_times n artifact s = (replicate n (Inr r), s)"
  by (induction n) (simp_all add: load_model_def)

lemma load_model_first:
  "load_model (Inr m) new_process =
     (Inr 0, \<lparr>cache = Some 0, objects = [m], joblib_calls = 1\<rparr>)"
  by (simp add: load_model_def joblib_load_def new_process_def)

text \<open>A file that cannot be read is read again by every call: nothing is cached.\<close>

lemma load_model_failing:
  "load_model_times n (Inl e) \<lparr>cache = None, objects = [], joblib_calls = k\<rparr> =
     (replicate n (Inl e), \<lparr>cache = None, objects = [], joblib_calls = k + n\<rparr>)"
  by (induction n arbitrary: k) (simp_all add: load_model_def joblib_load_def)

text \<open>
  Claim C6, as stated: two or more calls of the loading operation in one process
  deserialize exactly once. With a model file that cannot be read, the first call
  raises and stores nothing, so the second call deserializes again: two calls, two
  deserializations, and no object to return.
\<close>

theorem load_model_unreadable_counterexample:
  "fst (load_model_times 2 (Inl (Raised ''FileNotFoundError'')) new_process) =
     [Inl (Raised ''FileNotFoundError''), Inl (Raised ''FileNotFoundError'')] \<and>
   joblib_calls (snd (load_model_times 2 (Inl (Raised ''FileNotFoundError'')) new_process)) = 2 \<and>
   joblib_calls (snd (load_model_times 2 (Inl (Raised ''FileNotFoundError'')) new_process)) \<noteq> 1"
  by (simp add: new_process_def load_model_failing numeral_2_eq_2 del: load_model_times.simps)

text \<open>
  Claim C6, amended: in a new process whose model file holds a classifier, two or more
  calls of the loading operation deserialize the file exactly once: one object is
  created, every call returns the reference of that object, and the cache holds it.
\<close>

theorem load_model_once:
  assumes "2 \<le> n"
  shows "fst (load_model_times n (Inr m) new_process) = replicate n (Inr 0) \<and>
         joblib_calls (snd (load_model_times n (Inr m) new_process)) = 1 \<and>
         objects (snd (load_model_times n (Inr m) new_process)) = [m] \<and>
         cache (snd (load_model_times n (Inr m) new_process)) = Some 0"
proof -
  from assms obtain k where n: "n = Suc k" by (cases n) auto
  have "load_model_times k (Inr m) \<lparr>cache = Some 0, objects = [m], joblib_calls = 1\<rparr> =
      (replicate k (Inr 0), \<lparr>cache = Some 0, objects = [m], joblib_calls = 1\<rparr>)"
    by (rule load_model_times_cached) simp
  then show ?thesis
    by (simp add: n load_model_first)
qed

theorem load_model_once_witness:
  "(2::nat) \<le> 3 \<and>
   fst (load_model_times 3 (Inr (stub_model 1 (82 / 100))) new_process) =
     [Inr 0, Inr 0, Inr 0] \<and>
   joblib_calls (snd (load_model_times 3 (Inr (stub_model 1 (82 / 100))) new_process)) = 1"
proof -
  have h: "(2::nat) \<le> 3" by simp
  from load_model_once [OF h, of "stub_model 1 (82 / 100)"] h
  show ?thesis by (simp add: numeral_3_eq_3)
qed

end
